theory Spec2Isabelle
  imports Complex_Main "HOL-Library.Word"
begin

section \<open>JavaScript numbers\<close>

text \<open>
  The program computes with JavaScript numbers. A number is modelled as a real, or one of
  the three values that are no reals and that the code can produce: \<open>Infinity\<close>,
  \<open>-Infinity\<close> and \<open>NaN\<close>. They come from a division by zero or a quotient too
  large for a double, from \<open>Math.pow\<close>, from \<open>Math.min()\<close> of no argument and from
  reading past the end of the pixel buffer (\<open>undefined\<close>, which every use in this
  program turns into \<open>NaN\<close>).

  What the model leaves out: a finite result is the exact real, not the nearest double;
  sums, products and powers of finite numbers do not overflow (a quotient does, see
  \<open>js_div\<close>); and there is no negative zero, every zero is \<open>+0\<close> (which is what
  \<open>x - x\<close> gives). So the model is the program where rounding does not change the
  outcome and no zero divisor is negative. In the evaluations below that is so: the
  values are integers and halves, or they pass through a clamp, a rounding to an integer
  or a comparison far from its bound; only the interpolated position of the hit pair
  \<open>(5, 60), (6, 240)\<close> is exact here and rounded in the last digits by the program.
\<close>

datatype jsnum = Fin real | PInf | NInf | NaN

fun js_neg :: "jsnum \<Rightarrow> jsnum" where
  "js_neg (Fin a) = Fin (- a)"
| "js_neg PInf = NInf"
| "js_neg NInf = PInf"
| "js_neg NaN = NaN"

fun js_add :: "jsnum \<Rightarrow> jsnum \<Rightarrow> jsnum" where
  "js_add (Fin a) (Fin b) = Fin (a + b)"
| "js_add NaN _ = NaN"
| "js_add _ NaN = NaN"
| "js_add PInf NInf = NaN"
| "js_add NInf PInf = NaN"
| "js_add PInf _ = PInf"
| "js_add _ PInf = PInf"
| "js_add NInf _ = NInf"
| "js_add _ NInf = NInf"

definition js_sub :: "jsnum \<Rightarrow> jsnum \<Rightarrow> jsnum" where
  "js_sub a b = js_add a (js_neg b)"

text \<open>The infinity of a given sign (\<open>True\<close> is positive).\<close>

definition js_inf :: "bool \<Rightarrow> jsnum" where
  "js_inf pos = (if pos then PInf else NInf)"

fun js_mul :: "jsnum \<Rightarrow> jsnum \<Rightarrow> jsnum" where
  "js_mul (Fin a) (Fin b) = Fin (a * b)"
| "js_mul NaN _ = NaN"
| "js_mul _ NaN = NaN"
| "js_mul (Fin a) PInf = (if a = 0 then NaN else js_inf (0 < a))"
| "js_mul (Fin a) NInf = (if a = 0 then NaN else js_inf (a < 0))"
| "js_mul PInf (Fin b) = (if b = 0 then NaN else js_inf (0 < b))"
| "js_mul NInf (Fin b) = (if b = 0 then NaN else js_inf (b < 0))"
| "js_mul PInf PInf = PInf"
| "js_mul NInf NInf = PInf"
| "js_mul PInf NInf = NInf"
| "js_mul NInf PInf = NInf"

text \<open>
  A quotient overflows to an infinity when its magnitude reaches \<open>2^1024 - 2^970\<close>,
  the middle between the largest double and \<open>2^1024\<close>.
\<close>

definition js_overflow :: real where
  "js_overflow = 2 ^ 1024 - 2 ^ 970"

fun js_div :: "jsnum \<Rightarrow> jsnum \<Rightarrow> jsnum" where
  "js_div (Fin a) (Fin b) =
     (if b = 0 then (if a = 0 then NaN else js_inf (0 < a))
      else if js_overflow \<le> \<bar>a / b\<bar> then js_inf (0 < a / b)
      else Fin (a / b))"
| "js_div NaN _ = NaN"
| "js_div _ NaN = NaN"
| "js_div (Fin a) PInf = Fin 0"
| "js_div (Fin a) NInf = Fin 0"
| "js_div PInf (Fin b) = js_inf (0 \<le> b)"
| "js_div NInf (Fin b) = js_inf (b < 0)"
| "js_div PInf PInf = NaN"
| "js_div PInf NInf = NaN"
| "js_div NInf PInf = NaN"
| "js_div NInf NInf = NaN"

text \<open>Comparisons: every comparison with \<open>NaN\<close> is false.\<close>

fun js_lt :: "jsnum \<Rightarrow> jsnum \<Rightarrow> bool" where
  "js_lt (Fin a) (Fin b) = (a < b)"
| "js_lt NaN _ = False"
| "js_lt _ NaN = False"
| "js_lt _ NInf = False"
| "js_lt PInf _ = False"
| "js_lt NInf _ = True"
| "js_lt _ PInf = True"

definition js_gt :: "jsnum \<Rightarrow> jsnum \<Rightarrow> bool" where
  "js_gt a b = js_lt b a"

text \<open>Strict equality \<open>===\<close> of two numbers.\<close>

definition js_eq :: "jsnum \<Rightarrow> jsnum \<Rightarrow> bool" where
  "js_eq a b = (a \<noteq> NaN \<and> a = b)"

definition js_le :: "jsnum \<Rightarrow> jsnum \<Rightarrow> bool" where
  "js_le a b = (js_lt a b \<or> js_eq a b)"

definition js_ge :: "jsnum \<Rightarrow> jsnum \<Rightarrow> bool" where
  "js_ge a b = js_le b a"

text \<open>\<open>Math.max\<close> and \<open>Math.min\<close> of two arguments, and \<open>Math.min\<close> of a spread array.\<close>

definition js_max :: "jsnum \<Rightarrow> jsnum \<Rightarrow> jsnum" where
  "js_max a b = (if a = NaN \<or> b = NaN then NaN else if js_lt a b then b else a)"

definition js_min :: "jsnum \<Rightarrow> jsnum \<Rightarrow> jsnum" where
  "js_min a b = (if a = NaN \<or> b = NaN then NaN else if js_lt b a then b else a)"

definition js_min_list :: "jsnum list \<Rightarrow> jsnum" where
  "js_min_list xs = foldl js_min PInf xs"

fun js_floor :: "jsnum \<Rightarrow> jsnum" where
  "js_floor (Fin a) = Fin (of_int \<lfloor>a\<rfloor>)"
| "js_floor x = x"

text \<open>\<open>Math.round\<close> rounds a half towards \<open>+Infinity\<close>.\<close>

fun js_round :: "jsnum \<Rightarrow> jsnum" where
  "js_round (Fin a) = Fin (of_int \<lfloor>a + 1 / 2\<rfloor>)"
| "js_round x = x"

definition is_integral :: "real \<Rightarrow> bool" where
  "is_integral e = (e = of_int \<lfloor>e\<rfloor>)"

definition is_odd_integral :: "real \<Rightarrow> bool" where
  "is_odd_integral e = (is_integral e \<and> odd \<lfloor>e\<rfloor>)"

text \<open>
  \<open>Math.pow\<close>, case by case as the language defines it: an exponent \<open>NaN\<close> gives
  \<open>NaN\<close>, an exponent zero gives 1, a negative finite base with an exponent that is no
  integer gives \<open>NaN\<close>.
\<close>

fun js_pow :: "jsnum \<Rightarrow> jsnum \<Rightarrow> jsnum" where
  "js_pow b NaN = NaN"
| "js_pow b (Fin e) =
     (if e = 0 then Fin 1
      else case b of
        NaN \<Rightarrow> NaN
      | PInf \<Rightarrow> (if 0 < e then PInf else Fin 0)
      | NInf \<Rightarrow> (if 0 < e then (if is_odd_integral e then NInf else PInf) else Fin 0)
      | Fin x \<Rightarrow>
          (if x = 0 then (if 0 < e then Fin 0 else PInf)
           else if is_integral e then
             (if 0 < e then Fin (x ^ nat \<lfloor>e\<rfloor>) else Fin (1 / x ^ nat (- \<lfloor>e\<rfloor>)))
           else if x < 0 then NaN
           else Fin (x powr e)))"
| "js_pow b PInf =
     (case b of
        NaN \<Rightarrow> NaN
      | Fin x \<Rightarrow> (if 1 < \<bar>x\<bar> then PInf else if \<bar>x\<bar> = 1 then NaN else Fin 0)
      | _ \<Rightarrow> PInf)"
| "js_pow b NInf =
     (case b of
        NaN \<Rightarrow> NaN
      | Fin x \<Rightarrow> (if 1 < \<bar>x\<bar> then Fin 0 else if \<bar>x\<bar> = 1 then NaN else PInf)
      | _ \<Rightarrow> Fin 0)"

text \<open>
  The index conversion of \<open>slice\<close>: \<open>NaN\<close> is 0, a fraction is truncated towards zero,
  a negative index counts from the end, and the result is clamped to the length.
\<close>

definition js_trunc :: "real \<Rightarrow> int" where
  "js_trunc r = (if 0 \<le> r then \<lfloor>r\<rfloor> else \<lceil>r\<rceil>)"

fun js_rel_index :: "nat \<Rightarrow> jsnum \<Rightarrow> nat" where
  "js_rel_index len NaN = 0"
| "js_rel_index len NInf = 0"
| "js_rel_index len PInf = len"
| "js_rel_index len (Fin r) =
     (let i = js_trunc r
      in if i < 0 then nat (max (int len + i) 0) else nat (min i (int len)))"

definition js_slice :: "'a list \<Rightarrow> jsnum \<Rightarrow> jsnum \<Rightarrow> 'a list" where
  "js_slice xs start stop =
     (let from = js_rel_index (length xs) start;
          upto = js_rel_index (length xs) stop
      in take (upto - from) (drop from xs))"

text \<open>
  Reading an element of a byte array as a number: past the end the element is
  \<open>undefined\<close>, which the arithmetic and \<open>Math.min\<close> turn into \<open>NaN\<close>.
\<close>

definition js_byte_at :: "8 word list \<Rightarrow> nat \<Rightarrow> jsnum" where
  "js_byte_at xs i = (if i < length xs then Fin (real (unat (xs ! i))) else NaN)"

section \<open>Utilities: \<open>util/math.js\<close> and \<open>util/color.js\<close>\<close>

definition clamp :: "jsnum \<Rightarrow> jsnum \<Rightarrow> jsnum \<Rightarrow> jsnum" where
  "clamp v mn mx = js_max mn (js_min mx v)"

definition clamp8 :: "jsnum \<Rightarrow> jsnum" where
  "clamp8 v = clamp v (Fin 0) (Fin 255)"

definition calcBrightness :: "jsnum \<Rightarrow> jsnum \<Rightarrow> jsnum \<Rightarrow> jsnum" where
  "calcBrightness r g b =
     js_add (js_add (js_mul (Fin (299 / 1000)) r) (js_mul (Fin (587 / 1000)) g))
            (js_mul (Fin (114 / 1000)) b)"

definition calcNormalizedColor :: "jsnum \<Rightarrow> jsnum \<Rightarrow> jsnum \<Rightarrow> jsnum \<Rightarrow> jsnum" where
  "calcNormalizedColor v blackPoint whitePoint gammaValue =
     (let black = clamp8 blackPoint;
          white = clamp (clamp8 whitePoint) black (Fin 255);
          adjusted = js_pow (js_div (js_sub (clamp8 v) black) (js_sub white black))
                            (js_div (Fin 1) gammaValue)
      in clamp8 (js_mul adjusted (Fin 255)))"

definition calcNormalizedBrightness ::
  "jsnum \<Rightarrow> jsnum \<Rightarrow> jsnum \<Rightarrow> jsnum \<Rightarrow> jsnum \<Rightarrow> jsnum \<Rightarrow> jsnum" where
  "calcNormalizedBrightness r g b blackPoint whitePoint gammaValue =
     calcBrightness
       (calcNormalizedColor r blackPoint whitePoint gammaValue)
       (calcNormalizedColor g blackPoint whitePoint gammaValue)
       (calcNormalizedColor b blackPoint whitePoint gammaValue)"

section \<open>Side geometry\<close>

text \<open>
  The source numbers the sides 1 to 4 and only ever passes these four constants; the
  branch that throws \<open>Invalid side\<close> for any other value has no counterpart here.
\<close>

datatype side = SIDE_TOP | SIDE_RIGHT | SIDE_BOTTOM | SIDE_LEFT

datatype error =
    NoImageLoaded         \<comment> \<open>\<open>Error('No image loaded.')\<close>\<close>
  | NotBase64String       \<comment> \<open>\<open>Error('Not a base64 image string.')\<close>\<close>
  | DecodeFailure string  \<comment> \<open>whatever the image library throws\<close>
  | TypeError             \<comment> \<open>a property read on \<open>undefined\<close>\<close>
  | RangeError            \<comment> \<open>\<open>new Array(n)\<close> with an invalid length\<close>

definition correctScanRatio :: "jsnum \<Rightarrow> jsnum \<Rightarrow> jsnum \<Rightarrow> bool \<Rightarrow> jsnum" where
  "correctScanRatio scanLength imageRatio canvasRatio applyCorrection =
     (if \<not> applyCorrection \<or> js_eq imageRatio canvasRatio then scanLength
      else let ratioDifference =
                 (if js_gt imageRatio canvasRatio then js_div canvasRatio imageRatio
                  else js_div imageRatio canvasRatio)
           in js_mul scanLength ratioDifference)"

fun getSideLength :: "'a \<Rightarrow> 'a \<Rightarrow> side \<Rightarrow> 'a \<times> 'a" where
  "getSideLength w h SIDE_TOP = (w, h)"
| "getSideLength w h SIDE_BOTTOM = (w, h)"
| "getSideLength w h SIDE_LEFT = (h, w)"
| "getSideLength w h SIDE_RIGHT = (h, w)"

fun getSideScanLength :: "jsnum \<Rightarrow> jsnum \<Rightarrow> jsnum \<Rightarrow> jsnum \<Rightarrow> side \<Rightarrow> jsnum" where
  "getSideScanLength w h imageRatio canvasRatio SIDE_TOP =
     correctScanRatio w imageRatio canvasRatio (js_lt imageRatio canvasRatio)"
| "getSideScanLength w h imageRatio canvasRatio SIDE_BOTTOM =
     correctScanRatio w imageRatio canvasRatio (js_lt imageRatio canvasRatio)"
| "getSideScanLength w h imageRatio canvasRatio SIDE_LEFT =
     correctScanRatio h imageRatio canvasRatio (js_gt imageRatio canvasRatio)"
| "getSideScanLength w h imageRatio canvasRatio SIDE_RIGHT =
     correctScanRatio h imageRatio canvasRatio (js_gt imageRatio canvasRatio)"

section \<open>Interpolating two ray hits\<close>

text \<open>
  A ray hit is the pair of a depth and the normalised brightness found there. The array
  is destructured into its first two elements; with fewer, reading \<open>a[0]\<close> or
  \<open>b[0]\<close> throws.
\<close>

type_synonym rayhit = "nat \<times> jsnum"

fun normalizeRayHits :: "rayhit list \<Rightarrow> error + jsnum" where
  "normalizeRayHits (a # b # _) =
     (let aPos = Fin (real (fst a));
          aLevel = js_div (snd a) (Fin 255);
          bPos = Fin (real (fst b));
          bLevel = js_div (snd b) (Fin 255);
          direction = js_gt aLevel bLevel;
          factor = (if direction then js_div (Fin 1) aLevel else js_div (Fin 1) bLevel);
          aLevelNormalized = js_mul aLevel factor;
          bLevelNormalized = js_mul bLevel factor;
          diff = js_sub bPos aPos;
          weight = js_mul bLevelNormalized aLevelNormalized;
          pos = (if direction then js_sub bPos (js_mul diff (js_sub (Fin 1) weight))
                 else js_add aPos (js_mul diff (js_sub (Fin 1) weight)))
      in Inr pos)"
| "normalizeRayHits _ = Inl TypeError"

section \<open>The detector\<close>

text \<open>
  A decoded image is the raw byte buffer with its dimensions (the source's
  \<open>{data, info}\<close>; the metadata stored beside them is never read). The buffer is
  called \<open>buffer\<close> here, since the detector's own field is \<open>data\<close> as well.
\<close>

record info =
  width :: nat
  height :: nat
  channels :: nat

record rawimage =
  buffer :: "8 word list"
  info :: info

record settings =
  rayAmount :: real
  rayAmountMin :: real
  rayMargin :: real
  rayMaxDepth :: real
  rayThreshold :: real
  rayBlack :: real
  rayWhite :: real
  rayGamma :: real

definition default_settings :: settings where
  "default_settings =
     \<lparr> rayAmount = 25 / 1000, rayAmountMin = 15, rayMargin = 1 / 10, rayMaxDepth = 4 / 10,
       rayThreshold = 15, rayBlack = 6, rayWhite = 60, rayGamma = 1 \<rparr>"

record detector =
  filepath :: "string option"
  data :: "rawimage option"
  isLoaded :: bool
  imageRatio :: real
  settings :: settings

text \<open>The constructor: \<open>aspectRatio ?? 0\<close>.\<close>

definition CropDetector :: "real option \<Rightarrow> detector" where
  "CropDetector aspectRatio =
     \<lparr> filepath = None, data = None, isLoaded = False,
       imageRatio = (case aspectRatio of None \<Rightarrow> 0 | Some r \<Rightarrow> r),
       settings = default_settings \<rparr>"

subsection \<open>Reading pixels\<close>

definition getPixelAt :: "rawimage \<Rightarrow> jsnum \<Rightarrow> jsnum \<Rightarrow> 8 word list" where
  "getPixelAt img x y =
     (let ch = Fin (real (channels (info img)));
          offset = js_add (js_mul x ch)
                     (js_mul y (Fin (real (width (info img)) * real (channels (info img)))))
      in js_slice (buffer img) offset (js_add offset ch))"

fun getPixelFromEdge :: "rawimage \<Rightarrow> side \<Rightarrow> jsnum \<Rightarrow> jsnum \<Rightarrow> 8 word list" where
  "getPixelFromEdge img SIDE_TOP b a = getPixelAt img b a"
| "getPixelFromEdge img SIDE_BOTTOM b a =
     getPixelAt img b (js_sub (Fin (real (height (info img)) - 1)) a)"
| "getPixelFromEdge img SIDE_LEFT b a = getPixelAt img a b"
| "getPixelFromEdge img SIDE_RIGHT b a =
     getPixelAt img (js_sub (Fin (real (width (info img)) - 1)) a) b"

definition getPixelBrightnessAt :: "rawimage \<Rightarrow> jsnum \<Rightarrow> jsnum \<Rightarrow> jsnum" where
  "getPixelBrightnessAt img x y =
     (let rgb = getPixelAt img x y
      in calcBrightness (js_byte_at rgb 0) (js_byte_at rgb 1) (js_byte_at rgb 2))"

definition getBgBrightness :: "rawimage \<Rightarrow> jsnum" where
  "getBgBrightness img =
     (let pixel2x2 =
            [getPixelBrightnessAt img (Fin 0) (Fin 0),
             getPixelBrightnessAt img (Fin 1) (Fin 0),
             getPixelBrightnessAt img (Fin 0) (Fin 1),
             getPixelBrightnessAt img (Fin 1) (Fin 1)]
      in js_div (foldl js_add (Fin 0) pixel2x2) (Fin (real (length pixel2x2))))"

subsection \<open>Casting one ray\<close>

text \<open>
  The loop of \<open>_castEdgeRay\<close>, from depth \<open>a\<close> with the hits collected so far. It
  ends since \<open>a\<close> grows towards \<open>maxDepth\<close>, which is the floor of a finite number.
  The loop leaves in two ways: by \<open>break\<close> (here \<open>None\<close>), or with two hits, which
  the source hands to \<open>normalizeRayHits\<close> on the spot (here \<open>Some\<close> of the hits;
  \<open>castEdgeRay\<close> below makes the call).
\<close>

function castEdgeRay_hits ::
  "settings \<Rightarrow> rawimage \<Rightarrow> jsnum \<Rightarrow> side \<Rightarrow> int \<Rightarrow> jsnum \<Rightarrow> nat \<Rightarrow> rayhit list
     \<Rightarrow> rayhit list option" where
  "castEdgeRay_hits st img b sd maxDepth bgBrightness a rayHits =
     (if maxDepth \<le> int a then None
      else
        let pixel = getPixelFromEdge img sd b (Fin (real a));
            normalized =
              calcNormalizedBrightness (js_byte_at pixel 0) (js_byte_at pixel 1)
                (js_byte_at pixel 2) (js_add (Fin (rayBlack st)) bgBrightness)
                (Fin (rayWhite st)) (Fin (rayGamma st));
            rayHits1 = (if js_gt normalized (Fin (rayThreshold st))
                        then rayHits @ [(a, normalized)] else rayHits);
            rayHits2 = (if js_le normalized (Fin (rayThreshold st)) \<and> 0 < length rayHits1
                        then [] else rayHits1)
        in if 2 \<le> length rayHits2 then Some rayHits2
           else castEdgeRay_hits st img b sd maxDepth bgBrightness (a + 1) rayHits2)"
  by pat_completeness auto
termination
  by (relation "measure (\<lambda>(st, img, b, sd, maxDepth, bg, a, rayHits). nat (maxDepth - int a))")
     auto

text \<open>The result is \<open>None\<close> for the source's \<open>null\<close>.\<close>

definition castEdgeRay ::
  "settings \<Rightarrow> rawimage \<Rightarrow> jsnum \<Rightarrow> side \<Rightarrow> int \<Rightarrow> jsnum \<Rightarrow> error + jsnum option" where
  "castEdgeRay st img b sd maxDepth bgBrightness =
     (case castEdgeRay_hits st img b sd maxDepth bgBrightness 0 [] of
        None \<Rightarrow> Inr None
      | Some rayHits \<Rightarrow>
          (case normalizeRayHits rayHits of
             Inl e \<Rightarrow> Inl e
           | Inr pos \<Rightarrow> Inr (Some pos)))"

subsection \<open>Finding the edge of one side\<close>

text \<open>Running a function over an array, where the first exception ends the run.\<close>

fun map_rays :: "('a \<Rightarrow> error + 'b) \<Rightarrow> 'a list \<Rightarrow> error + 'b list" where
  "map_rays f [] = Inr []"
| "map_rays f (x # xs) =
     (case f x of
        Inl e \<Rightarrow> Inl e
      | Inr y \<Rightarrow> (case map_rays f xs of Inl e \<Rightarrow> Inl e | Inr ys \<Rightarrow> Inr (y # ys)))"

text \<open>
  \<open>new Array(n)\<close> throws unless \<open>n\<close> is an integer from 0 to \<open>2^32 - 1\<close>; otherwise
  the array has the indices \<open>0, ..., n - 1\<close>.
\<close>

definition new_Array_indices :: "jsnum \<Rightarrow> error + nat list" where
  "new_Array_indices n =
     (case n of
        Fin r \<Rightarrow> (if is_integral r \<and> 0 \<le> r \<and> r < 2 ^ 32 then Inr [0..<nat \<lfloor>r\<rfloor>]
                  else Inl RangeError)
      | _ \<Rightarrow> Inl RangeError)"

text \<open>The non-null entries of an array, in order.\<close>

definition filter_not_null :: "'a option list \<Rightarrow> 'a list" where
  "filter_not_null xs = map the (filter (\<lambda>n. n \<noteq> None) xs)"

definition findEdge :: "detector \<Rightarrow> rawimage \<Rightarrow> side \<Rightarrow> jsnum \<Rightarrow> error + jsnum" where
  "findEdge d img sd bgBrightness =
     (let st = settings d;
          w = real (width (info img));
          h = real (height (info img));
          canvasRatio = js_div (Fin w) (Fin h);
          imageRatio' = (if imageRatio d \<noteq> 0 then Fin (imageRatio d) else canvasRatio);
          sideLength = getSideLength w h sd;
          scanLength = getSideScanLength (Fin w) (Fin h) imageRatio' canvasRatio sd;
          offsetStart = js_add (js_mul scanLength (Fin (rayMargin st)))
                               (js_div (js_sub (Fin (fst sideLength)) scanLength) (Fin 2));
          offsetEnd = js_sub (Fin (fst sideLength)) offsetStart;
          rayNumber = js_max (js_floor (js_mul scanLength (Fin (rayAmount st))))
                             (Fin (rayAmountMin st));
          rayStep = js_div offsetEnd rayNumber;
          maxDepth = \<lfloor>snd sideLength * rayMaxDepth st\<rfloor>
      in case new_Array_indices rayNumber of
           Inl e \<Rightarrow> Inl e
         | Inr ns \<Rightarrow>
             (case map_rays
                     (\<lambda>n. let b = js_round (js_add (js_mul (Fin (real n)) rayStep) offsetStart)
                          in castEdgeRay st img b sd maxDepth bgBrightness) ns of
                Inl e \<Rightarrow> Inl e
              | Inr rays \<Rightarrow> Inr (js_min_list (filter_not_null rays))))"

record edges =
  top :: jsnum
  right :: jsnum
  bottom :: jsnum
  left :: jsnum

definition findEdges :: "detector \<Rightarrow> rawimage \<Rightarrow> jsnum \<Rightarrow> error + edges" where
  "findEdges d img bgBrightness =
     (case findEdge d img SIDE_TOP bgBrightness of Inl e \<Rightarrow> Inl e | Inr t \<Rightarrow>
      case findEdge d img SIDE_RIGHT bgBrightness of Inl e \<Rightarrow> Inl e | Inr r \<Rightarrow>
      case findEdge d img SIDE_BOTTOM bgBrightness of Inl e \<Rightarrow> Inl e | Inr b \<Rightarrow>
      case findEdge d img SIDE_LEFT bgBrightness of Inl e \<Rightarrow> Inl e | Inr l \<Rightarrow>
      Inr \<lparr> top = t, right = r, bottom = b, left = l \<rparr>)"

subsection \<open>The crop box\<close>

record source_box =
  source_width :: nat
  source_height :: nat
  source_aspectRatio :: jsnum

record cropped_box =
  cropped_width :: jsnum
  cropped_height :: jsnum
  cropped_aspectRatio :: jsnum
  correctedWidth :: jsnum
  correctedHeight :: jsnum
  cropped_edges :: edges

record cropbox =
  source :: source_box
  cropped :: cropped_box
  target_aspectRatio :: real
  image_backgroundBrightness :: jsnum

text \<open>
  The method is asynchronous; the rejection of its promise is the error result. If the
  flag is set and no image data is stored, destructuring \<open>this.data\<close> throws.
\<close>

definition detectCropBox :: "detector \<Rightarrow> error + cropbox" where
  "detectCropBox d =
     (if \<not> isLoaded d then Inl NoImageLoaded
      else case data d of
        None \<Rightarrow> Inl TypeError
      | Some img \<Rightarrow>
          (let bgBrightness = getBgBrightness img
           in case findEdges d img bgBrightness of
                Inl e \<Rightarrow> Inl e
              | Inr es \<Rightarrow>
                  (let w = Fin (real (width (info img)));
                       h = Fin (real (height (info img)));
                       croppedWidth = js_sub (js_sub w (left es)) (right es);
                       croppedHeight = js_sub (js_sub h (top es)) (bottom es);
                       croppedRatio = js_div croppedWidth croppedHeight;
                       ir = Fin (imageRatio d)
                   in Inr \<lparr> source = \<lparr> source_width = width (info img),
                                        source_height = height (info img),
                                        source_aspectRatio = js_div w h \<rparr>,
                            cropped = \<lparr> cropped_width = croppedWidth,
                                         cropped_height = croppedHeight,
                                         cropped_aspectRatio = croppedRatio,
                                         correctedWidth =
                                           (if js_gt ir croppedRatio
                                            then js_mul w (js_div ir croppedRatio) else w),
                                         correctedHeight =
                                           (if js_gt ir croppedRatio
                                            then h else js_mul h (js_div ir croppedRatio)),
                                         cropped_edges = es \<rparr>,
                            target_aspectRatio = imageRatio d,
                            image_backgroundBrightness = bgBrightness \<rparr>)))"

subsection \<open>Loading\<close>

text \<open>
  The image library and the base64 decoder of the platform are outside the program: they
  are parameters. \<open>sharp\<close> maps its input to the raw image or to the message of the
  exception it throws.
\<close>

definition loadImageBuffer ::
  "('src \<Rightarrow> string + rawimage) \<Rightarrow> 'src \<Rightarrow> detector \<Rightarrow> error + detector" where
  "loadImageBuffer sharp buf d =
     (case sharp buf of
        Inl msg \<Rightarrow> Inl (DecodeFailure msg)
      | Inr img \<Rightarrow> Inr (d\<lparr> isLoaded := True, filepath := Some ''<buffer>'', data := Some img \<rparr>))"

definition loadImageFile ::
  "(string \<Rightarrow> string + rawimage) \<Rightarrow> string \<Rightarrow> detector \<Rightarrow> error + detector" where
  "loadImageFile sharp path d =
     (case sharp path of
        Inl msg \<Rightarrow> Inl (DecodeFailure msg)
      | Inr img \<Rightarrow> Inr (d\<lparr> isLoaded := True, filepath := Some path, data := Some img \<rparr>))"

text \<open>
  The regular expression \<open>/^data:(.+?);base64,/\<close>: the text \<open>data:\<close>, then the
  shortest run of one or more characters that are no line terminators and that
  \<open>;base64,\<close> follows. A character is a byte here, so of the four line terminators of
  the language only line feed and carriage return occur. The result is the matched text.
\<close>

definition is_line_terminator :: "char \<Rightarrow> bool" where
  "is_line_terminator c = (c = CHR 0x0A \<or> c = CHR 0x0D)"

fun lazy_mime :: "nat \<Rightarrow> string \<Rightarrow> nat option" where
  "lazy_mime k [] = None"
| "lazy_mime k (c # cs) =
     (if 0 < k \<and> take 8 (c # cs) = '';base64,'' then Some k
      else if is_line_terminator c then None
      else lazy_mime (Suc k) cs)"

definition match_data_prefix :: "string \<Rightarrow> string option" where
  "match_data_prefix s =
     (if take 5 s = ''data:''
      then (case lazy_mime 0 (drop 5 s) of
              None \<Rightarrow> None
            | Some k \<Rightarrow> Some (take (5 + k + 8) s))
      else None)"

definition loadImageBase64 ::
  "(8 word list \<Rightarrow> string + rawimage) \<Rightarrow> (string \<Rightarrow> 8 word list) \<Rightarrow> string \<Rightarrow> detector
     \<Rightarrow> error + detector" where
  "loadImageBase64 sharp from_base64 base64 d =
     (case match_data_prefix base64 of
        None \<Rightarrow> Inl NotBase64String
      | Some mime0 \<Rightarrow>
          (let dat = drop (length mime0) base64;
               buf = from_base64 dat
           in loadImageBuffer sharp buf d))"

section \<open>Test inputs, and the sample of a ray\<close>

text \<open>
  A canvas of 100 by 100 pixels with three channels: a frame of 10 pixels of the grey
  level \<open>outer\<close> around an interior of the grey level \<open>inner\<close>.
\<close>

definition framed_byte :: "8 word \<Rightarrow> 8 word \<Rightarrow> nat \<Rightarrow> 8 word" where
  "framed_byte outer inner i =
     (let p = i div 3; x = p mod 100; y = p div 100
      in if 10 \<le> x \<and> x < 90 \<and> 10 \<le> y \<and> y < 90 then inner else outer)"

definition framed_canvas :: "8 word \<Rightarrow> 8 word \<Rightarrow> rawimage" where
  "framed_canvas outer inner =
     \<lparr> buffer = map (framed_byte outer inner) [0..<30000],
       info = \<lparr> width = 100, height = 100, channels = 3 \<rparr> \<rparr>"

text \<open>
  A canvas of 3 by 15 pixels on a background of grey level 94: a white row at depth 2, a
  row of grey level 100 at depth 3, a white row at depth 4, background elsewhere.
\<close>

definition striped_canvas :: rawimage where
  "striped_canvas =
     \<lparr> buffer = concat (map (\<lambda>c. replicate 9 c)
                  [94, 94, 255, 100, 255, 94, 94, 94, 94, 94, 94, 94, 94, 94, 94]),
       info = \<lparr> width = 3, height = 15, channels = 3 \<rparr> \<rparr>"

text \<open>A detector after a successful load of an image, with the default settings.\<close>

definition loaded_detector :: "real option \<Rightarrow> rawimage \<Rightarrow> detector" where
  "loaded_detector aspectRatio img =
     (CropDetector aspectRatio)\<lparr> isLoaded := True, filepath := Some ''<buffer>'',
                                data := Some img \<rparr>"

text \<open>The normalised brightness that a ray reads at depth \<open>a\<close>.\<close>

definition ray_sample :: "settings \<Rightarrow> rawimage \<Rightarrow> jsnum \<Rightarrow> side \<Rightarrow> jsnum \<Rightarrow> nat \<Rightarrow> jsnum" where
  "ray_sample st img b sd bgBrightness a =
     (let pixel = getPixelFromEdge img sd b (Fin (real a))
      in calcNormalizedBrightness (js_byte_at pixel 0) (js_byte_at pixel 1)
           (js_byte_at pixel 2) (js_add (Fin (rayBlack st)) bgBrightness)
           (Fin (rayWhite st)) (Fin (rayGamma st)))"

section \<open>Facts about the number operations\<close>

lemma js_inf_simps [simp]: "js_inf True = PInf" "js_inf False = NInf"
  by (simp_all add: js_inf_def)

text \<open>
  Division of finite numbers is used through these facts: a quotient of magnitude below
  \<open>2^64\<close> is the real quotient, and one that reaches the bound is an infinity.
\<close>

declare js_div.simps(1) [simp del]

lemma js_overflow_large: "2 ^ 64 < js_overflow"
proof -
  have "(2::real) ^ 64 < 2 ^ 970" by (rule power_strict_increasing) simp_all
  moreover have "(2::real) * 2 ^ 970 \<le> 2 ^ 1024"
    using power_increasing [of 971 1024 "2::real"] by simp
  ultimately show ?thesis by (simp add: js_overflow_def)
qed

lemma js_div_Fin [simp]:
  "b \<noteq> 0 \<Longrightarrow> \<bar>a / b\<bar> < 2 ^ 64 \<Longrightarrow> js_div (Fin a) (Fin b) = Fin (a / b)"
  using js_overflow_large by (simp add: js_div.simps(1))

lemma js_div_Fin_le:
  "b \<noteq> 0 \<Longrightarrow> \<bar>a\<bar> \<le> \<bar>b\<bar> \<Longrightarrow> js_div (Fin a) (Fin b) = Fin (a / b)"
proof -
  assume b: "b \<noteq> 0" and le: "\<bar>a\<bar> \<le> \<bar>b\<bar>"
  then have "\<bar>a / b\<bar> \<le> 1" by simp
  also have "(1::real) < 2 ^ 64" by simp
  finally show ?thesis using b by simp
qed

lemma js_div_Fin_zero [simp]:
  "js_div (Fin a) (Fin 0) = (if a = 0 then NaN else js_inf (0 < a))"
  by (simp add: js_div.simps(1))

lemma js_div_Fin_overflow:
  "b \<noteq> 0 \<Longrightarrow> js_overflow \<le> \<bar>a / b\<bar> \<Longrightarrow> js_div (Fin a) (Fin b) = js_inf (0 < a / b)"
  by (simp add: js_div.simps(1))

lemma clamp_Fin: "clamp (Fin v) (Fin a) (Fin b) = Fin (max a (min b v))"
  by (auto simp: clamp_def js_max_def js_min_def)

lemma clamp8_Fin: "clamp8 (Fin v) = Fin (max 0 (min 255 v))"
  by (simp add: clamp8_def clamp_Fin)

section \<open>The scan length\<close>

text \<open>
  Claim C4. For every scan length \<open>L\<close> and all ratios \<open>r\<close>, \<open>r1\<close>, \<open>r2\<close> above zero:
  \<open>correctScanRatio\<close> returns \<open>L\<close> when the two ratios are equal, and when the
  correction is not applied; and when they differ and it is applied, it returns
  \<open>L\<close> times the smaller ratio over the larger, which is at most \<open>L\<close> for \<open>L \<ge> 0\<close>.
\<close>

theorem correctScanRatio_values:
  "0 < r \<and> 0 < r1 \<and> 0 < r2 \<longrightarrow>
     correctScanRatio (Fin L) (Fin r) (Fin r) True = Fin L
   \<and> correctScanRatio (Fin L) (Fin r1) (Fin r2) False = Fin L
   \<and> (r1 \<noteq> r2 \<longrightarrow>
        correctScanRatio (Fin L) (Fin r1) (Fin r2) True = Fin (L * (min r1 r2 / max r1 r2))
      \<and> (0 \<le> L \<longrightarrow> L * (min r1 r2 / max r1 r2) \<le> L))"
proof (intro impI conjI)
  assume pos: "0 < r \<and> 0 < r1 \<and> 0 < r2"
  show "correctScanRatio (Fin L) (Fin r) (Fin r) True = Fin L"
    by (simp add: correctScanRatio_def js_eq_def)
  show "correctScanRatio (Fin L) (Fin r1) (Fin r2) False = Fin L"
    by (simp add: correctScanRatio_def)
  assume ne: "r1 \<noteq> r2"
  show "correctScanRatio (Fin L) (Fin r1) (Fin r2) True = Fin (L * (min r1 r2 / max r1 r2))"
    using pos ne
    by (simp add: correctScanRatio_def js_eq_def js_gt_def min_def max_def js_div_Fin_le)
  assume L: "0 \<le> L"
  have "min r1 r2 / max r1 r2 \<le> 1" using pos by (simp add: min_def max_def)
  with L have "L * (min r1 r2 / max r1 r2) \<le> L * 1"
    by (rule mult_left_mono [rotated])
  then show "L * (min r1 r2 / max r1 r2) \<le> L" by simp
qed

theorem correctScanRatio_values_witness:
  "correctScanRatio (Fin 100) (Fin 2) (Fin 2) True = Fin 100
   \<and> correctScanRatio (Fin 100) (Fin 1) (Fin 2) False = Fin 100
   \<and> correctScanRatio (Fin 100) (Fin 1) (Fin 2) True = Fin 50"
  using correctScanRatio_values [of 2 1 2 100] by simp

text \<open>
  Claim C8. For the top and the bottom side, \<open>getSideScanLength\<close> returns the width
  times the smaller ratio over the larger exactly when the image ratio is below the canvas
  ratio, and the width as it is otherwise; for the left and the right side, the height
  times that factor exactly when the image ratio is above the canvas ratio, and the height
  as it is otherwise. This holds for all numbers, \<open>NaN\<close> and the infinities included.
\<close>

theorem getSideScanLength_cases:
  "getSideScanLength w h ir cr SIDE_TOP =
     (if js_lt ir cr then js_mul w (js_div (js_min ir cr) (js_max ir cr)) else w)
   \<and> getSideScanLength w h ir cr SIDE_BOTTOM =
     (if js_lt ir cr then js_mul w (js_div (js_min ir cr) (js_max ir cr)) else w)
   \<and> getSideScanLength w h ir cr SIDE_LEFT =
     (if js_gt ir cr then js_mul h (js_div (js_min ir cr) (js_max ir cr)) else h)
   \<and> getSideScanLength w h ir cr SIDE_RIGHT =
     (if js_gt ir cr then js_mul h (js_div (js_min ir cr) (js_max ir cr)) else h)"
  by (cases ir; cases cr)
     (auto simp: correctScanRatio_def js_eq_def js_gt_def js_min_def js_max_def)

theorem getSideScanLength_cases_witness:
  "getSideScanLength (Fin 200) (Fin 100) (Fin 1) (Fin 2) SIDE_TOP = Fin 100
   \<and> getSideScanLength (Fin 200) (Fin 100) (Fin 1) (Fin 2) SIDE_LEFT = Fin 100
   \<and> getSideScanLength (Fin 100) (Fin 200) (Fin 1) (Fin (1 / 2)) SIDE_BOTTOM = Fin 100
   \<and> getSideScanLength (Fin 100) (Fin 200) (Fin 1) (Fin (1 / 2)) SIDE_RIGHT = Fin 100"
  using getSideScanLength_cases [of "Fin 200" "Fin 100" "Fin 1" "Fin 2"]
        getSideScanLength_cases [of "Fin 100" "Fin 200" "Fin 1" "Fin (1 / 2)"]
  by (simp add: js_gt_def js_min_def js_max_def)

section \<open>Interpolation of a hit pair\<close>

text \<open>
  Claim C5. The hits at depth 5 with level 60 and at depth 6 with level 240 interpolate to
  the position 5.75: the levels are \<open>60/255\<close> and \<open>240/255\<close>, the later one is the
  brighter (the direction is false), the factor is \<open>255/240\<close>, the weight is
  \<open>1/4\<close>, and the position is \<open>5 + 1 * (1 - 1/4)\<close>.
\<close>

theorem normalizeRayHits_example:
  "normalizeRayHits [(5, Fin 60), (6, Fin 240)] = Inr (Fin (23 / 4))
   \<and> \<bar>23 / 4 - 575 / 100\<bar> \<le> (1 / 10 ^ 6 :: real)
   \<and> js_div (Fin 60) (Fin 255) = Fin (60 / 255)
   \<and> js_div (Fin 240) (Fin 255) = Fin (240 / 255)
   \<and> js_gt (js_div (Fin 60) (Fin 255)) (js_div (Fin 240) (Fin 255)) = False
   \<and> js_div (Fin 1) (js_div (Fin 240) (Fin 255)) = Fin (255 / 240)
   \<and> js_mul (js_mul (Fin (240 / 255)) (Fin (255 / 240)))
             (js_mul (Fin (60 / 255)) (Fin (255 / 240))) = Fin (1 / 4)
   \<and> js_add (Fin 5) (js_mul (Fin 1) (js_sub (Fin 1) (Fin (1 / 4)))) = Fin (23 / 4)"
  by (simp add: js_gt_def js_sub_def)

section \<open>Normalising a colour\<close>

lemma clamp8_NaN: "clamp8 NaN = NaN"
  by (simp add: clamp8_def clamp_def js_max_def js_min_def)

lemma one_over_tiny: "js_div (Fin 1) (Fin (1 / 2 ^ 1030)) = PInf"
proof -
  have "(2::real) ^ 1024 \<le> 2 ^ 1030" by (rule power_increasing) simp_all
  then have "js_overflow \<le> \<bar>1 / (1 / 2 ^ 1030 :: real)\<bar>" by (simp add: js_overflow_def)
  then have "js_div (Fin 1) (Fin (1 / 2 ^ 1030)) = js_inf (0 < 1 / (1 / 2 ^ 1030 :: real))"
    by (intro js_div_Fin_overflow) simp_all
  then show ?thesis by simp
qed

text \<open>
  Claim C7 says that with \<open>gamma > 0\<close> and the clamped white point above the clamped
  black point the result is a real number in \<open>[0, 255]\<close> and never \<open>NaN\<close>. The
  code returns \<open>NaN\<close> in two ways, since the last \<open>clamp8\<close> lets \<open>NaN\<close>
  through. With \<open>gamma = 2\<close>, black point 6 and white point 60, the value 0 is below
  the black point: the base of the power is \<open>-1/9\<close>, the exponent \<open>1/2\<close>, and
  \<open>Math.pow\<close> gives \<open>NaN\<close>. With \<open>gamma = 2^-1030\<close> and the value 60 at the
  white point, the base is 1, \<open>1 / gamma\<close> overflows to \<open>Infinity\<close>, and
  \<open>Math.pow(1, Infinity)\<close> is \<open>NaN\<close>.
\<close>

theorem calcNormalizedColor_NaN:
  "0 < (2::real) \<and> clamp8 (Fin 6) = Fin 6 \<and> clamp (clamp8 (Fin 60)) (Fin 6) (Fin 255) = Fin 60
   \<and> (6::real) < 60 \<and> calcNormalizedColor (Fin 0) (Fin 6) (Fin 60) (Fin 2) = NaN
   \<and> 0 < (1 / 2 ^ 1030 :: real)
   \<and> calcNormalizedColor (Fin 60) (Fin 6) (Fin 60) (Fin (1 / 2 ^ 1030)) = NaN"
proof -
  have neg: "calcNormalizedColor (Fin 0) (Fin 6) (Fin 60) (Fin 2) = NaN"
    by (simp add: calcNormalizedColor_def clamp8_Fin clamp_Fin js_sub_def is_integral_def
          clamp8_NaN)
  have "js_pow (js_div (js_sub (Fin 60) (Fin 6)) (js_sub (Fin 60) (Fin 6)))
               (js_div (Fin 1) (Fin (1 / 2 ^ 1030))) = NaN"
    by (simp only: one_over_tiny) (simp add: js_sub_def)
  then have big: "calcNormalizedColor (Fin 60) (Fin 6) (Fin 60) (Fin (1 / 2 ^ 1030)) = NaN"
    by (simp add: calcNormalizedColor_def clamp8_Fin clamp_Fin clamp8_NaN Let_def
          del: js_pow.simps)
  from neg big show ?thesis by (simp add: clamp8_Fin clamp_Fin)
qed

section \<open>Detection before loading\<close>

text \<open>
  Claim C6. On a detector whose loaded flag is not set, \<open>detectCropBox\<close> fails with the
  error of no loaded image, whatever the image data field holds: the result does not
  depend on any pixel buffer, so none is read. The constructor leaves the flag unset,
  and only a load that succeeds sets it.
\<close>

theorem detectCropBox_not_loaded:
  "\<not> isLoaded d \<longrightarrow>
     detectCropBox d = Inl NoImageLoaded
   \<and> (\<forall>img. detectCropBox (d\<lparr>data := img\<rparr>) = Inl NoImageLoaded)"
  by (simp add: detectCropBox_def)

theorem detectCropBox_not_loaded_witness:
  "detectCropBox (CropDetector None) = Inl NoImageLoaded"
  using detectCropBox_not_loaded [of "CropDetector None"] by (simp add: CropDetector_def)

section \<open>Loading a base64 string\<close>

lemma lazy_mime_Some:
  "lazy_mime k cs = Some n \<Longrightarrow>
     \<exists>pre rest. cs = pre @ '';base64,'' @ rest \<and> n = k + length pre \<and> 0 < n"
proof (induction cs arbitrary: k)
  case Nil
  then show ?case by simp
next
  case (Cons c cs)
  show ?case
  proof (cases "0 < k \<and> take 8 (c # cs) = '';base64,''")
    case True
    then have n: "n = k" using Cons.prems by simp
    have "c # cs = take 8 (c # cs) @ drop 8 (c # cs)" by (simp only: append_take_drop_id)
    with True have "c # cs = [] @ '';base64,'' @ drop 8 (c # cs)" by simp
    with n True show ?thesis by (metis add.right_neutral list.size(3))
  next
    case False
    with Cons.prems have rec: "lazy_mime (Suc k) cs = Some n"
      by (auto split: if_splits)
    from Cons.IH [OF rec] obtain pre rest where
      "cs = pre @ '';base64,'' @ rest" "n = Suc k + length pre" by blast
    then have "c # cs = (c # pre) @ '';base64,'' @ rest \<and> n = k + length (c # pre) \<and> 0 < n"
      by simp
    then show ?thesis by blast
  qed
qed

lemma match_data_prefix_Some:
  assumes "match_data_prefix s = Some m"
  shows "\<exists>mime rest. mime \<noteq> [] \<and> s = ''data:'' @ mime @ '';base64,'' @ rest"
proof -
  from assms have t: "take 5 s = ''data:''"
    by (auto simp: match_data_prefix_def split: if_splits)
  from assms obtain k where k: "lazy_mime 0 (drop 5 s) = Some k"
    by (auto simp: match_data_prefix_def split: if_splits option.splits)
  from lazy_mime_Some [OF k] obtain pre rest where
    pr: "drop 5 s = pre @ '';base64,'' @ rest" "k = length pre" "0 < k" by auto
  have "s = take 5 s @ drop 5 s" by simp
  with t pr have "s = ''data:'' @ pre @ '';base64,'' @ rest" by simp
  moreover from pr have "pre \<noteq> []" by auto
  ultimately show ?thesis by blast
qed

text \<open>
  Claim C9. A string that does not begin with \<open>data:\<close>, a mime type of at least one
  character and \<open>;base64,\<close> makes \<open>loadImageBase64\<close> fail with the error of a string
  that is no base64 image, whatever the base64 decoder and the image library would do:
  the result does not depend on them, so neither is called. The error is not the one
  that wraps a failure of the image library.
\<close>

theorem loadImageBase64_no_prefix:
  "\<not> (\<exists>mime rest. mime \<noteq> [] \<and> base64 = ''data:'' @ mime @ '';base64,'' @ rest) \<longrightarrow>
     loadImageBase64 sharp from_base64 base64 d = Inl NotBase64String
   \<and> (\<forall>msg. loadImageBase64 sharp from_base64 base64 d \<noteq> Inl (DecodeFailure msg))"
proof
  assume no: "\<not> (\<exists>mime rest. mime \<noteq> [] \<and> base64 = ''data:'' @ mime @ '';base64,'' @ rest)"
  have "match_data_prefix base64 = None"
  proof (cases "match_data_prefix base64")
    case None then show ?thesis .
  next
    case (Some m)
    from match_data_prefix_Some [OF Some] no show ?thesis by blast
  qed
  then show "loadImageBase64 sharp from_base64 base64 d = Inl NotBase64String
   \<and> (\<forall>msg. loadImageBase64 sharp from_base64 base64 d \<noteq> Inl (DecodeFailure msg))"
    by (simp add: loadImageBase64_def)
qed

theorem loadImageBase64_no_prefix_witness:
  "loadImageBase64 (\<lambda>b. Inl ''unsupported image format'') (\<lambda>s. []) ''iVBORw0KGgo=''
     (CropDetector None) = Inl NotBase64String"
  using loadImageBase64_no_prefix
    [of "''iVBORw0KGgo=''" "\<lambda>b. Inl ''unsupported image format''" "\<lambda>s. []" "CropDetector None"]
  by simp

section \<open>The loop of a ray\<close>

text \<open>
  The equation of the loop is used one step at a time, with the brightness read at a
  depth written as \<open>ray_sample\<close>.
\<close>

declare castEdgeRay_hits.simps [simp del]

lemma castEdgeRay_hits_step:
  "castEdgeRay_hits st img b sd md bg a hs =
     (if md \<le> int a then None
      else let n = ray_sample st img b sd bg a;
               hs1 = (if js_gt n (Fin (rayThreshold st)) then hs @ [(a, n)] else hs);
               hs2 = (if js_le n (Fin (rayThreshold st)) \<and> 0 < length hs1 then [] else hs1)
           in if 2 \<le> length hs2 then Some hs2
              else castEdgeRay_hits st img b sd md bg (Suc a) hs2)"
  by (subst castEdgeRay_hits.simps) (simp add: ray_sample_def Let_def)

lemma js_gt_not_le: "js_gt x y \<Longrightarrow> \<not> js_le x y"
  by (cases x; cases y) (auto simp: js_gt_def js_le_def js_eq_def)

lemma castEdgeRay_hits_miss:
  assumes "\<not> js_gt (ray_sample st img b sd bg a) (Fin (rayThreshold st))" and "int a < md"
  shows "castEdgeRay_hits st img b sd md bg a [] = castEdgeRay_hits st img b sd md bg (Suc a) []"
  using assms by (subst castEdgeRay_hits_step) (simp add: Let_def)

lemma castEdgeRay_hits_skip:
  assumes miss: "\<And>i. a \<le> i \<Longrightarrow> i < k \<Longrightarrow> \<not> js_gt (ray_sample st img b sd bg i) (Fin (rayThreshold st))"
    and k: "int k \<le> md" and ak: "a \<le> k"
  shows "castEdgeRay_hits st img b sd md bg a [] = castEdgeRay_hits st img b sd md bg k []"
  using ak miss k
proof (induction k rule: dec_induct)
  case base
  show ?case by simp
next
  case (step n)
  have "castEdgeRay_hits st img b sd md bg a [] = castEdgeRay_hits st img b sd md bg n []"
    using step by simp
  also have "\<dots> = castEdgeRay_hits st img b sd md bg (Suc n) []"
    using step by (intro castEdgeRay_hits_miss) auto
  finally show ?case .
qed

lemma castEdgeRay_hits_none:
  assumes miss: "\<And>i. a \<le> i \<Longrightarrow> int i < md \<Longrightarrow> \<not> js_gt (ray_sample st img b sd bg i) (Fin (rayThreshold st))"
  shows "castEdgeRay_hits st img b sd md bg a [] = None"
proof (cases "md \<le> int a")
  case True
  then show ?thesis by (subst castEdgeRay_hits_step) simp
next
  case False
  then have "a \<le> nat md" "int (nat md) \<le> md" by auto
  with miss have "castEdgeRay_hits st img b sd md bg a [] = castEdgeRay_hits st img b sd md bg (nat md) []"
    by (intro castEdgeRay_hits_skip) auto
  also have "\<dots> = None" using False by (subst castEdgeRay_hits_step) simp
  finally show ?thesis .
qed

lemma castEdgeRay_hits_two:
  assumes "int (Suc a) < md"
    and "js_gt (ray_sample st img b sd bg a) (Fin (rayThreshold st))"
    and "js_gt (ray_sample st img b sd bg (Suc a)) (Fin (rayThreshold st))"
  shows "castEdgeRay_hits st img b sd md bg a [] =
           Some [(a, ray_sample st img b sd bg a), (Suc a, ray_sample st img b sd bg (Suc a))]"
  using assms
  by (subst castEdgeRay_hits_step, subst castEdgeRay_hits_step)
     (simp add: Let_def js_gt_not_le)

section \<open>Reading the test canvases\<close>

lemma js_rel_index_nat: "js_rel_index len (Fin (real k)) = min k len"
  by (simp add: js_trunc_def min_def)

lemma js_slice_nat:
  "k + m \<le> length xs \<Longrightarrow> js_slice xs (Fin (real k)) (Fin (real (k + m))) = take m (drop k xs)"
  by (simp only: js_slice_def js_rel_index_nat Let_def) (simp add: min_def)

lemma getPixelAt_nat:
  "getPixelAt img (Fin (real x)) (Fin (real y)) =
     js_slice (buffer img)
       (Fin (real (x * channels (info img) + y * (width (info img) * channels (info img)))))
       (Fin (real (x * channels (info img) + y * (width (info img) * channels (info img))
                   + channels (info img))))"
  by (simp add: getPixelAt_def Let_def)

lemma framed_byte_at:
  assumes "x < 100" and "j < 3"
  shows "framed_byte outer inner (x * 3 + y * 300 + j) =
           (if 10 \<le> x \<and> x < 90 \<and> 10 \<le> y \<and> y < 90 then inner else outer)"
proof -
  have p: "(x * 3 + y * 300 + j) div 3 = x + y * 100" using assms by presburger
  have "(x + y * 100) mod 100 = x" "(x + y * 100) div 100 = y" using assms by simp_all
  with p show ?thesis by (simp add: framed_byte_def Let_def)
qed

lemma getPixelAt_framed:
  assumes "x < 100" and "y < 100"
  shows "getPixelAt (framed_canvas outer inner) (Fin (real x)) (Fin (real y)) =
           (let c = (if 10 \<le> x \<and> x < 90 \<and> 10 \<le> y \<and> y < 90 then inner else outer)
            in [c, c, c])"
proof -
  let ?k = "x * 3 + y * 300"
  have len: "?k + 3 \<le> length (buffer (framed_canvas outer inner))"
    using assms by (simp add: framed_canvas_def)
  have "getPixelAt (framed_canvas outer inner) (Fin (real x)) (Fin (real y)) =
          js_slice (buffer (framed_canvas outer inner)) (Fin (real ?k)) (Fin (real (?k + 3)))"
    by (simp only: getPixelAt_nat) (simp add: framed_canvas_def)
  also have "\<dots> = take 3 (drop ?k (buffer (framed_canvas outer inner)))"
    by (rule js_slice_nat [OF len])
  also have "\<dots> = map (framed_byte outer inner) [?k..<?k + 3]"
    using assms by (simp add: framed_canvas_def take_map drop_map add.commute)
  also have "[?k..<?k + 3] = [?k + 0, ?k + 1, ?k + 2]"
    by (simp add: upt_rec [of ?k] upt_rec [of "Suc ?k"] upt_rec [of "Suc (Suc ?k)"])
  also have "map (framed_byte outer inner) [?k + 0, ?k + 1, ?k + 2] =
      (let c = (if 10 \<le> x \<and> x < 90 \<and> 10 \<le> y \<and> y < 90 then inner else outer) in [c, c, c])"
    using assms(1) by (simp only: list.map framed_byte_at Let_def)
  finally show ?thesis .
qed


lemma getPixelFromEdge_framed:
  assumes "k < 100" and "a < 40"
  shows "getPixelFromEdge (framed_canvas outer inner) sd (Fin (real k)) (Fin (real a)) =
           (let c = (if 10 \<le> k \<and> k < 90 \<and> 10 \<le> a then inner else outer) in [c, c, c])"
proof -
  have far: "Fin (real (99 - a)) = js_sub (Fin (real (100::nat) - 1)) (Fin (real a))"
    using assms by (simp add: js_sub_def of_nat_diff)
  have wh: "width (info (framed_canvas outer inner)) = 100"
           "height (info (framed_canvas outer inner)) = 100"
    by (simp_all add: framed_canvas_def)
  show ?thesis
  proof (cases sd)
    case SIDE_TOP
    with assms getPixelAt_framed [of k a outer inner] show ?thesis by (simp add: Let_def)
  next
    case SIDE_BOTTOM
    with assms getPixelAt_framed [of k "99 - a" outer inner] show ?thesis
      by (simp only: getPixelFromEdge.simps wh far [symmetric]) (auto simp: Let_def)
  next
    case SIDE_LEFT
    with assms getPixelAt_framed [of a k outer inner] show ?thesis by (auto simp: Let_def)
  next
    case SIDE_RIGHT
    with assms getPixelAt_framed [of "99 - a" k outer inner] show ?thesis
      by (simp only: getPixelFromEdge.simps wh far [symmetric]) (auto simp: Let_def)
  qed
qed

lemma js_pow_one: "js_pow b (Fin 1) = b"
  by (cases b) (simp_all add: is_integral_def is_odd_integral_def)

lemma ray_sample_framed:
  assumes "k < 100" and "a < 40"
  shows "ray_sample default_settings (framed_canvas outer inner) (Fin (real k)) sd bg a =
           (let c = Fin (real (unat (if 10 \<le> k \<and> k < 90 \<and> 10 \<le> a then inner else outer)))
            in calcNormalizedBrightness c c c (js_add (Fin 6) bg) (Fin 60) (Fin 1))"
  by (simp add: ray_sample_def getPixelFromEdge_framed [OF assms] Let_def js_byte_at_def
        default_settings_def)

lemma brightness_dark_on_dark:
  "calcNormalizedBrightness (Fin 0) (Fin 0) (Fin 0) (Fin 6) (Fin 60) (Fin 1) = Fin 0"
  by (simp add: calcNormalizedBrightness_def calcNormalizedColor_def calcBrightness_def
        clamp8_Fin clamp_Fin js_sub_def js_pow_one Let_def del: js_pow.simps)

lemma brightness_white_on_dark:
  "calcNormalizedBrightness (Fin 255) (Fin 255) (Fin 255) (Fin 6) (Fin 60) (Fin 1)
     = Fin 255"
  by (simp add: calcNormalizedBrightness_def calcNormalizedColor_def calcBrightness_def
        clamp8_Fin clamp_Fin js_sub_def js_pow_one Let_def del: js_pow.simps)

lemma brightness_white_on_white:
  "calcNormalizedBrightness (Fin 255) (Fin 255) (Fin 255) (Fin 261) (Fin 60) (Fin 1)
     = NaN"
  by (simp add: calcNormalizedBrightness_def calcNormalizedColor_def calcBrightness_def
        clamp8_Fin clamp_Fin js_sub_def js_pow_one Let_def del: js_pow.simps)
     (simp add: clamp8_def clamp_def js_max_def js_min_def)

lemma brightness_dark_on_white:
  "calcNormalizedBrightness (Fin 0) (Fin 0) (Fin 0) (Fin 261) (Fin 60) (Fin 1)
     = Fin 0"
  by (simp add: calcNormalizedBrightness_def calcNormalizedColor_def calcBrightness_def
        clamp8_Fin clamp_Fin js_sub_def js_pow_one Let_def del: js_pow.simps)
     (simp add: clamp8_def clamp_def js_max_def js_min_def)


lemma ray_sample_dark_frame:
  assumes "k < 100" and "a < 40"
  shows "ray_sample default_settings (framed_canvas 0 255) (Fin (real k)) sd (Fin 0) a =
           (if 10 \<le> k \<and> k < 90 \<and> 10 \<le> a then Fin 255 else Fin 0)"
  by (simp add: ray_sample_framed [OF assms] Let_def brightness_dark_on_dark brightness_white_on_dark)

lemma ray_sample_white_frame:
  assumes "k < 100" and "a < 40"
  shows "ray_sample default_settings (framed_canvas 255 0) (Fin (real k)) sd (Fin 255) a =
           (if 10 \<le> k \<and> k < 90 \<and> 10 \<le> a then Fin 0 else NaN)"
  by (simp add: ray_sample_framed [OF assms] Let_def brightness_dark_on_white brightness_white_on_white)

lemma ray_sample_all_dark:
  assumes "k < 100" and "a < 40"
  shows "ray_sample default_settings (framed_canvas 0 0) (Fin (real k)) sd (Fin 0) a = Fin 0"
  by (simp add: ray_sample_framed [OF assms] Let_def brightness_dark_on_dark)

lemma threshold_default: "rayThreshold default_settings = 15"
  by (simp add: default_settings_def)

lemma castEdgeRay_dark_frame:
  assumes b: "b = real (nat \<lfloor>b\<rfloor>)" and k: "nat \<lfloor>b\<rfloor> < 100"
  shows "castEdgeRay default_settings (framed_canvas 0 255) (Fin b) sd 40 (Fin 0) =
           Inr (if 10 \<le> nat \<lfloor>b\<rfloor> \<and> nat \<lfloor>b\<rfloor> < 90 then Some (Fin 10) else None)"
proof -
  define k where "k = nat \<lfloor>b\<rfloor>"
  have bk: "Fin b = Fin (real k)" using b by (simp add: k_def)
  have k100: "k < 100" using k by (simp add: k_def)
  let ?hits = "castEdgeRay_hits default_settings (framed_canvas 0 255) (Fin (real k)) sd 40 (Fin 0)"
  let ?s = "ray_sample default_settings (framed_canvas 0 255) (Fin (real k)) sd (Fin 0)"
  show ?thesis
  proof (cases "10 \<le> k \<and> k < 90")
    case True
    have "?hits 0 [] = ?hits 10 []"
      by (rule castEdgeRay_hits_skip)
         (simp_all add: ray_sample_dark_frame [OF k100] threshold_default js_gt_def)
    also have "\<dots> = Some [(10, ?s 10), (Suc 10, ?s (Suc 10))]"
      using True
      by (intro castEdgeRay_hits_two)
         (simp_all add: ray_sample_dark_frame [OF k100] threshold_default js_gt_def)
    also have "\<dots> = Some [(10, Fin 255), (11, Fin 255)]"
      using True by (simp add: ray_sample_dark_frame [OF k100])
    finally have "?hits 0 [] = Some [(10, Fin 255), (11, Fin 255)]" .
    with True show ?thesis
      unfolding bk castEdgeRay_def k_def [symmetric]
      by (simp add: js_gt_def js_sub_def)
  next
    case False
    have "?hits 0 [] = None"
      using False
      by (intro castEdgeRay_hits_none)
         (auto simp: ray_sample_dark_frame [OF k100] threshold_default js_gt_def)
    with False show ?thesis
      unfolding bk castEdgeRay_def k_def [symmetric] by simp
  qed
qed

lemma castEdgeRay_white_frame:
  assumes b: "b = real (nat \<lfloor>b\<rfloor>)" and k: "nat \<lfloor>b\<rfloor> < 100"
  shows "castEdgeRay default_settings (framed_canvas 255 0) (Fin b) sd 40 (Fin 255) = Inr None"
proof -
  define k where "k = nat \<lfloor>b\<rfloor>"
  have bk: "Fin b = Fin (real k)" using b by (simp add: k_def)
  have k100: "k < 100" using k by (simp add: k_def)
  have "castEdgeRay_hits default_settings (framed_canvas 255 0) (Fin (real k)) sd 40 (Fin 255) 0 []
          = None"
    by (intro castEdgeRay_hits_none)
       (auto simp: ray_sample_white_frame [OF k100] threshold_default js_gt_def)
  then show ?thesis unfolding bk castEdgeRay_def by simp
qed

lemma castEdgeRay_all_dark:
  assumes b: "b = real (nat \<lfloor>b\<rfloor>)" and k: "nat \<lfloor>b\<rfloor> < 100"
  shows "castEdgeRay default_settings (framed_canvas 0 0) (Fin b) sd 40 (Fin 0) = Inr None"
proof -
  define k where "k = nat \<lfloor>b\<rfloor>"
  have bk: "Fin b = Fin (real k)" using b by (simp add: k_def)
  have k100: "k < 100" using k by (simp add: k_def)
  have "castEdgeRay_hits default_settings (framed_canvas 0 0) (Fin (real k)) sd 40 (Fin 0) 0 []
          = None"
    by (intro castEdgeRay_hits_none)
       (auto simp: ray_sample_all_dark [OF k100] threshold_default js_gt_def)
  then show ?thesis unfolding bk castEdgeRay_def by simp
qed

section \<open>Detection on the framed canvas\<close>

text \<open>The test detector is what a successful load leaves.\<close>

lemma loadImageBuffer_loaded:
  "loadImageBuffer (\<lambda>buf. Inr img) buf (CropDetector aspectRatio)
     = Inr (loaded_detector aspectRatio img)"
  by (simp add: loadImageBuffer_def loaded_detector_def)

lemma loaded_detector_fields:
  "settings (loaded_detector a img) = default_settings"
  "imageRatio (loaded_detector a img) = (case a of None \<Rightarrow> 0 | Some r \<Rightarrow> r)"
  "isLoaded (loaded_detector a img) = True"
  "data (loaded_detector a img) = Some img"
  by (simp_all add: loaded_detector_def CropDetector_def)

lemma default_settings_fields:
  "rayAmount default_settings = 25 / 1000"
  "rayAmountMin default_settings = 15"
  "rayMargin default_settings = 1 / 10"
  "rayMaxDepth default_settings = 4 / 10"
  "rayThreshold default_settings = 15"
  "rayBlack default_settings = 6"
  "rayWhite default_settings = 60"
  "rayGamma default_settings = 1"
  by (simp_all add: default_settings_def)

lemma framed_canvas_info:
  "width (info (framed_canvas outer inner)) = 100"
  "height (info (framed_canvas outer inner)) = 100"
  "channels (info (framed_canvas outer inner)) = 3"
  by (simp_all add: framed_canvas_def)

lemma upt_15: "[0..<15] = [0, 1, 2, 3, 4, 5, 6, 7, 8, 9, 10, 11, 12, 13, 14]"
  by code_simp

lemmas findEdge_eval =
  findEdge_def loaded_detector_fields default_settings_fields framed_canvas_info Let_def
  correctScanRatio_def js_eq_def js_gt_def js_sub_def js_max_def js_min_def
  new_Array_indices_def is_integral_def upt_15 filter_not_null_def js_min_list_def

lemma findEdge_dark_frame_1:
  "findEdge (loaded_detector (Some 1) (framed_canvas 0 255)) (framed_canvas 0 255) sd (Fin 0)
     = Inr (Fin 10)"
  by (cases sd) (simp_all add: findEdge_eval castEdgeRay_dark_frame)

lemma findEdge_dark_frame_half:
  "findEdge (loaded_detector (Some (1 / 2)) (framed_canvas 0 255)) (framed_canvas 0 255) sd (Fin 0)
     = Inr (Fin 10)"
  by (cases sd) (simp_all add: findEdge_eval castEdgeRay_dark_frame)

lemma findEdge_dark_frame_default:
  "findEdge (loaded_detector None (framed_canvas 0 255)) (framed_canvas 0 255) sd (Fin 0)
     = Inr (Fin 10)"
  by (cases sd) (simp_all add: findEdge_eval castEdgeRay_dark_frame)

lemma findEdge_white_frame_1:
  "findEdge (loaded_detector (Some 1) (framed_canvas 255 0)) (framed_canvas 255 0) sd (Fin 255)
     = Inr PInf"
  by (cases sd) (simp_all add: findEdge_eval castEdgeRay_white_frame)

lemma findEdge_all_dark:
  "findEdge (loaded_detector None (framed_canvas 0 0)) (framed_canvas 0 0) sd (Fin 0)
     = Inr PInf"
  by (cases sd) (simp_all add: findEdge_eval castEdgeRay_all_dark)


lemma calcBrightness_grey: "calcBrightness (Fin c) (Fin c) (Fin c) = Fin c"
  by (simp add: calcBrightness_def algebra_simps)

lemma mean_of_four_bytes:
  "js_div (Fin (4 * unsigned c)) (Fin 4) = Fin (unsigned c)" for c :: "8 word"
proof -
  have "unat c < 2 ^ LENGTH(8)" by (rule unsigned_less)
  then have "unat c < 256" by simp
  then have "real (unat c) < real 256" by (simp only: of_nat_less_iff)
  then have "(unsigned c :: real) < 256" by simp
  moreover have "0 \<le> (unsigned c :: real)" by (metis of_nat_0_le_iff of_nat_unat)
  ultimately have "\<bar>4 * unsigned c / 4 :: real\<bar> < 2 ^ 64" by simp
  then have "js_div (Fin (4 * unsigned c)) (Fin 4) = Fin (4 * unsigned c / 4)"
    by (intro js_div_Fin) simp_all
  then show ?thesis by simp
qed

lemma getBgBrightness_framed:
  "getBgBrightness (framed_canvas outer inner) = Fin (real (unat outer))"
  using getPixelAt_framed [of 0 0 outer inner] getPixelAt_framed [of 1 0 outer inner]
        getPixelAt_framed [of 0 1 outer inner] getPixelAt_framed [of 1 1 outer inner]
  by (simp add: getBgBrightness_def getPixelBrightnessAt_def js_byte_at_def Let_def
        calcBrightness_grey mean_of_four_bytes)

lemmas detectCropBox_eval =
  detectCropBox_def findEdges_def loaded_detector_fields framed_canvas_info Let_def
  getBgBrightness_framed js_sub_def js_gt_def

text \<open>
  Claim C2, as the code has it. On the canvas of 100 by 100 pixels with a black frame of
  10 pixels (background brightness 0) around a white interior, with the default settings
  and the target aspect ratio 1, detection finds every edge at exactly 10, a cropped area
  of 80 by 80 with ratio 1, and the corrected size 100 by 100; no side is without an edge.
\<close>

theorem detectCropBox_dark_frame:
  "detectCropBox (loaded_detector (Some 1) (framed_canvas 0 255)) =
     Inr \<lparr> source = \<lparr> source_width = 100, source_height = 100, source_aspectRatio = Fin 1 \<rparr>,
           cropped = \<lparr> cropped_width = Fin 80, cropped_height = Fin 80,
                       cropped_aspectRatio = Fin 1,
                       correctedWidth = Fin 100, correctedHeight = Fin 100,
                       cropped_edges = \<lparr> top = Fin 10, right = Fin 10, bottom = Fin 10,
                                         left = Fin 10 \<rparr> \<rparr>,
           target_aspectRatio = 1, image_backgroundBrightness = Fin 0 \<rparr>"
  by (simp add: detectCropBox_eval findEdge_dark_frame_1)

text \<open>
  The claim as the specification states it, with a white frame around a black interior,
  fails. The background brightness is 255, so the black point is clamped to 255 and
  equals the white point: a white pixel normalises to \<open>0/0 = NaN\<close> and a black one to
  0. No sample is above the threshold, no ray finds an edge, and every edge is
  \<open>Infinity\<close>, not a value near 10.
\<close>

theorem detectCropBox_white_frame:
  "detectCropBox (loaded_detector (Some 1) (framed_canvas 255 0)) =
     Inr \<lparr> source = \<lparr> source_width = 100, source_height = 100, source_aspectRatio = Fin 1 \<rparr>,
           cropped = \<lparr> cropped_width = NInf, cropped_height = NInf,
                       cropped_aspectRatio = NaN,
                       correctedWidth = Fin 100, correctedHeight = NaN,
                       cropped_edges = \<lparr> top = PInf, right = PInf, bottom = PInf,
                                         left = PInf \<rparr> \<rparr>,
           target_aspectRatio = 1, image_backgroundBrightness = Fin 255 \<rparr>"
  by (simp add: detectCropBox_eval findEdge_white_frame_1)

section \<open>A side without an edge\<close>

text \<open>
  Whenever every ray of a side returns \<open>null\<close>, the array of results is empty after
  filtering and \<open>_findEdge\<close> returns \<open>Infinity\<close> (unless the number of rays is no
  array length, which the default settings exclude).
\<close>

lemma map_rays_all_null:
  assumes "\<And>x. x \<in> set xs \<Longrightarrow> f x = Inr None"
  shows "map_rays f xs = Inr (replicate (length xs) None)"
  using assms by (induction xs) simp_all

lemma filter_not_null_replicate: "filter_not_null (replicate n None) = []"
  by (simp add: filter_not_null_def)

lemma new_Array_indices_error: "new_Array_indices n = Inl e \<Longrightarrow> e = RangeError"
  by (cases n) (simp_all add: new_Array_indices_def split: if_splits)

lemma min_of_no_ray:
  assumes "\<And>n. f n = Inr None"
  shows "(case new_Array_indices rn of
            Inl e \<Rightarrow> Inl e
          | Inr ns \<Rightarrow>
              (case map_rays f ns of
                 Inl e \<Rightarrow> Inl e
               | Inr rays \<Rightarrow> Inr (js_min_list (filter_not_null rays))))
         \<in> {Inr PInf, Inl RangeError}"
proof (cases "new_Array_indices rn")
  case (Inl e)
  with new_Array_indices_error [OF Inl] show ?thesis by simp
next
  case (Inr ns)
  have "map_rays f ns = Inr (replicate (length ns) None)"
    by (rule map_rays_all_null) (rule assms)
  with Inr show ?thesis
    by (simp add: filter_not_null_replicate js_min_list_def)
qed

lemma findEdge_no_ray_found:
  assumes "\<And>b. castEdgeRay (settings d) img b sd
                  \<lfloor>snd (getSideLength (real (width (info img))) (real (height (info img))) sd)
                     * rayMaxDepth (settings d)\<rfloor> bg = Inr None"
  shows "findEdge d img sd bg \<in> {Inr PInf, Inl RangeError}"
  unfolding findEdge_def Let_def
  by (rule min_of_no_ray) (rule assms)

text \<open>
  Claim C1 asks for an explicit failure when no ray of a side finds an edge. The code has
  none: on a uniformly black canvas of 100 by 100 pixels no sample is above the
  threshold, every ray returns \<open>null\<close>, \<open>Math.min\<close> of the empty array is
  \<open>Infinity\<close>, and \<open>detectCropBox\<close> returns a result whose four edges are
  \<open>Infinity\<close>, with the cropped width and height \<open>-Infinity\<close> and the ratio
  \<open>NaN\<close>.
\<close>

theorem detectCropBox_no_edge_found:
  "detectCropBox (loaded_detector None (framed_canvas 0 0)) =
     Inr \<lparr> source = \<lparr> source_width = 100, source_height = 100, source_aspectRatio = Fin 1 \<rparr>,
           cropped = \<lparr> cropped_width = NInf, cropped_height = NInf,
                       cropped_aspectRatio = NaN,
                       correctedWidth = Fin 100, correctedHeight = NaN,
                       cropped_edges = \<lparr> top = PInf, right = PInf, bottom = PInf,
                                         left = PInf \<rparr> \<rparr>,
           target_aspectRatio = 0, image_backgroundBrightness = Fin 0 \<rparr>"
  by (simp add: detectCropBox_eval findEdge_all_dark)

section \<open>The corrected size\<close>

text \<open>
  Claim C3 says that the corrected size pads the short dimension and shrinks neither. The
  code shrinks the height whenever the image ratio is below the cropped ratio: the
  second branch multiplies the height by the image ratio over the cropped ratio, which
  is at most 1 there. On the black-framed canvas the cropped ratio is 1; with the target
  ratio \<open>1/2\<close> the corrected size is 100 by 50, of ratio 2 and not \<open>1/2\<close>. A
  detector built without a target ratio keeps the image ratio 0, which
  \<open>detectCropBox\<close> uses as it is (only \<open>_findEdge\<close> replaces it by the canvas
  ratio): its corrected height is 0.
\<close>

theorem detectCropBox_height_shrunk:
  "detectCropBox (loaded_detector (Some (1 / 2)) (framed_canvas 0 255)) =
     Inr \<lparr> source = \<lparr> source_width = 100, source_height = 100, source_aspectRatio = Fin 1 \<rparr>,
           cropped = \<lparr> cropped_width = Fin 80, cropped_height = Fin 80,
                       cropped_aspectRatio = Fin 1,
                       correctedWidth = Fin 100, correctedHeight = Fin 50,
                       cropped_edges = \<lparr> top = Fin 10, right = Fin 10, bottom = Fin 10,
                                         left = Fin 10 \<rparr> \<rparr>,
           target_aspectRatio = 1 / 2, image_backgroundBrightness = Fin 0 \<rparr>
   \<and> detectCropBox (loaded_detector None (framed_canvas 0 255)) =
     Inr \<lparr> source = \<lparr> source_width = 100, source_height = 100, source_aspectRatio = Fin 1 \<rparr>,
           cropped = \<lparr> cropped_width = Fin 80, cropped_height = Fin 80,
                       cropped_aspectRatio = Fin 1,
                       correctedWidth = Fin 100, correctedHeight = Fin 0,
                       cropped_edges = \<lparr> top = Fin 10, right = Fin 10, bottom = Fin 10,
                                         left = Fin 10 \<rparr> \<rparr>,
           target_aspectRatio = 0, image_backgroundBrightness = Fin 0 \<rparr>"
  by (simp add: detectCropBox_eval findEdge_dark_frame_half findEdge_dark_frame_default)

section \<open>Rays whose samples are all numbers\<close>

text \<open>
  A normalised brightness is \<open>NaN\<close> or a real number from 0 to 255. If no sample a ray
  reads is \<open>NaN\<close>, the loop keeps at most one hit, the one of the depth before, and
  the two hits it returns are at consecutive depths, both above the threshold.
\<close>

lemma clamp8_range: "clamp8 x = NaN \<or> (\<exists>r. clamp8 x = Fin r \<and> 0 \<le> r \<and> r \<le> 255)"
  by (cases x) (auto simp: clamp8_def clamp_def js_max_def js_min_def)

lemma calcBrightness_range:
  assumes "r = NaN \<or> (\<exists>x. r = Fin x \<and> 0 \<le> x \<and> x \<le> 255)"
    and "g = NaN \<or> (\<exists>x. g = Fin x \<and> 0 \<le> x \<and> x \<le> 255)"
    and "b = NaN \<or> (\<exists>x. b = Fin x \<and> 0 \<le> x \<and> x \<le> 255)"
  shows "calcBrightness r g b = NaN
         \<or> (\<exists>x. calcBrightness r g b = Fin x \<and> 0 \<le> x \<and> x \<le> 255)"
  using assms by (auto simp: calcBrightness_def)

lemma ray_sample_range:
  "ray_sample st img b sd bg a = NaN
   \<or> (\<exists>x. ray_sample st img b sd bg a = Fin x \<and> 0 \<le> x \<and> x \<le> 255)"
  unfolding ray_sample_def Let_def calcNormalizedBrightness_def calcNormalizedColor_def
  by (intro calcBrightness_range clamp8_range)

lemma ray_sample_hit:
  assumes "js_gt (ray_sample st img b sd bg a) (Fin t)"
  obtains l where "ray_sample st img b sd bg a = Fin l" "t < l" "l \<le> 255"
  using assms ray_sample_range [of st img b sd bg a] by (auto simp: js_gt_def)

lemma castEdgeRay_hits_consecutive:
  assumes cmp: "\<And>i. int i < md \<Longrightarrow> ray_sample st img b sd bg i \<noteq> NaN"
    and inv: "hs = [] \<or> (\<exists>j. a = Suc j \<and> hs = [(j, ray_sample st img b sd bg j)]
                \<and> js_gt (ray_sample st img b sd bg j) (Fin (rayThreshold st)))"
    and res: "castEdgeRay_hits st img b sd md bg a hs = Some r"
  shows "\<exists>j. r = [(j, ray_sample st img b sd bg j), (Suc j, ray_sample st img b sd bg (Suc j))]
           \<and> int (Suc j) < md
           \<and> js_gt (ray_sample st img b sd bg j) (Fin (rayThreshold st))
           \<and> js_gt (ray_sample st img b sd bg (Suc j)) (Fin (rayThreshold st))"
  using inv res
proof (induction "nat (md - int a)" arbitrary: a hs)
  case 0
  then have "md \<le> int a" by simp
  with 0 show ?case by (subst (asm) castEdgeRay_hits_step) simp
next
  case (Suc n)
  let ?S = "ray_sample st img b sd bg"
  let ?T = "Fin (rayThreshold st)"
  from Suc.hyps have a: "int a < md" and n: "n = nat (md - int (Suc a))" by auto
  show ?case
  proof (cases "js_gt (?S a) ?T")
    case True
    then have nle: "\<not> js_le (?S a) ?T" by (rule js_gt_not_le)
    from Suc.prems(1) show ?thesis
    proof
      assume "hs = []"
      with Suc.prems(2) a True nle
      have "castEdgeRay_hits st img b sd md bg (Suc a) [(a, ?S a)] = Some r"
        by (subst (asm) castEdgeRay_hits_step) (simp add: Let_def)
      moreover have "[(a, ?S a)] = [] \<or> (\<exists>j. Suc a = Suc j \<and> [(a, ?S a)] = [(j, ?S j)]
                \<and> js_gt (?S j) ?T)" using True by simp
      ultimately show ?thesis using Suc.hyps(1) [OF n] by blast
    next
      assume "\<exists>j. a = Suc j \<and> hs = [(j, ?S j)] \<and> js_gt (?S j) ?T"
      then obtain j where j: "a = Suc j" "hs = [(j, ?S j)]" "js_gt (?S j) ?T" by blast
      with Suc.prems(2) a True nle have "r = [(j, ?S j), (Suc j, ?S (Suc j))]"
        by (subst (asm) castEdgeRay_hits_step) (simp add: Let_def)
      with j a True show ?thesis by auto
    qed
  next
    case False
    from cmp [OF a] False have le: "js_le (?S a) ?T"
      by (cases "?S a") (auto simp: js_gt_def js_le_def js_eq_def)
    from Suc.prems(2) a False le
    have "castEdgeRay_hits st img b sd md bg (Suc a) [] = Some r"
      by (subst (asm) castEdgeRay_hits_step) (simp add: Let_def split: if_splits)
    then show ?thesis using Suc.hyps(1) [OF n] by blast
  qed
qed

text \<open>
  With a threshold of at least 1, the levels of the two hits are between 1 and 255, no
  quotient of the interpolation overflows, and the position such a ray returns lies
  between the two depths: the weight is the smaller level over the larger.
\<close>

lemma level_quotients:
  assumes "1 \<le> l" and "l \<le> 255"
  shows "js_div (Fin l) (Fin 255) = Fin (l / 255)"
    and "js_div (Fin 1) (Fin (l / 255)) = Fin (255 / l)"
proof -
  from assms show "js_div (Fin l) (Fin 255) = Fin (l / 255)"
    by (intro js_div_Fin_le) simp_all
  from assms have "255 / l \<le> 255 / 1" by (intro divide_left_mono) simp_all
  also have "(255 / 1 :: real) < 2 ^ 64" by simp
  finally have "\<bar>1 / (l / 255)\<bar> < 2 ^ 64" using assms by simp
  with assms have "js_div (Fin 1) (Fin (l / 255)) = Fin (1 / (l / 255))"
    by (intro js_div_Fin) simp_all
  then show "js_div (Fin 1) (Fin (l / 255)) = Fin (255 / l)" by simp
qed

lemma normalizeRayHits_between:
  assumes l0: "1 \<le> l0" "l0 \<le> 255" and l1: "1 \<le> l1" "l1 \<le> 255"
  shows "\<exists>p. normalizeRayHits [(j, Fin l0), (Suc j, Fin l1)] = Inr (Fin p)
           \<and> p = (if l1 < l0 then real (Suc j) - (1 - l1 / l0) else real j + (1 - l0 / l1))
           \<and> real j \<le> p \<and> p \<le> real (Suc j)"
proof (cases "l1 < l0")
  case True
  with l0 l1 have q: "0 \<le> l1 / l0" "l1 / l0 \<le> 1" by simp_all
  have "normalizeRayHits [(j, Fin l0), (Suc j, Fin l1)]
          = Inr (Fin (real (Suc j) - (1 - l1 / l0)))"
    using True l0 l1
    by (simp add: level_quotients js_gt_def js_sub_def Let_def del: js_div_Fin)
  with True q show ?thesis by simp
next
  case False
  with l0 l1 have q: "0 \<le> l0 / l1" "l0 / l1 \<le> 1" by simp_all
  have "normalizeRayHits [(j, Fin l0), (Suc j, Fin l1)] = Inr (Fin (real j + (1 - l0 / l1)))"
    using False l0 l1
    by (simp add: level_quotients js_gt_def js_sub_def Let_def del: js_div_Fin)
  with False q show ?thesis by simp
qed

lemma castEdgeRay_position:
  assumes cmp: "\<And>i. int i < md \<Longrightarrow> ray_sample st img b sd bg i \<noteq> NaN"
    and thr: "1 \<le> rayThreshold st"
    and res: "castEdgeRay st img b sd md bg = Inr (Some pos)"
  shows "\<exists>j l0 l1 p.
           castEdgeRay_hits st img b sd md bg 0 [] = Some [(j, Fin l0), (Suc j, Fin l1)]
         \<and> int (Suc j) \<le> md - 1 \<and> 0 < l0 \<and> 0 < l1
         \<and> 0 < min l0 l1 / max l0 l1 \<and> min l0 l1 / max l0 l1 \<le> 1
         \<and> pos = Fin p \<and> real j \<le> p \<and> p \<le> real (Suc j)"
proof -
  let ?S = "ray_sample st img b sd bg"
  from res obtain r where r: "castEdgeRay_hits st img b sd md bg 0 [] = Some r"
    by (cases "castEdgeRay_hits st img b sd md bg 0 []") (simp_all add: castEdgeRay_def)
  from castEdgeRay_hits_consecutive [OF cmp _ r] obtain j where
    j: "r = [(j, ?S j), (Suc j, ?S (Suc j))]" "int (Suc j) < md"
       "js_gt (?S j) (Fin (rayThreshold st))" "js_gt (?S (Suc j)) (Fin (rayThreshold st))"
    by blast
  from j(3) obtain l0 where l0: "?S j = Fin l0" "rayThreshold st < l0" "l0 \<le> 255"
    by (rule ray_sample_hit)
  from j(4) obtain l1 where l1: "?S (Suc j) = Fin l1" "rayThreshold st < l1" "l1 \<le> 255"
    by (rule ray_sample_hit)
  from thr l0 l1 have lv: "1 \<le> l0" "1 \<le> l1" by simp_all
  then have pos: "0 < l0" "0 < l1" by simp_all
  from normalizeRayHits_between [OF lv(1) l0(3) lv(2) l1(3)] obtain p where
    p: "normalizeRayHits [(j, Fin l0), (Suc j, Fin l1)] = Inr (Fin p)"
       "real j \<le> p" "p \<le> real (Suc j)" by blast
  from res r j(1) l0(1) l1(1) p(1) have "pos = Fin p" by (simp add: castEdgeRay_def)
  moreover from pos have "0 < min l0 l1 / max l0 l1" "min l0 l1 / max l0 l1 \<le> 1"
    by (simp_all add: min_def max_def)
  ultimately show ?thesis using r j l0 l1 pos p by auto
qed

section \<open>A ray over a sample that is no number\<close>

lemma striped_buffer:
  "buffer striped_canvas =
     [94, 94, 94, 94, 94, 94, 94, 94, 94,
      94, 94, 94, 94, 94, 94, 94, 94, 94,
      255, 255, 255, 255, 255, 255, 255, 255, 255,
      100, 100, 100, 100, 100, 100, 100, 100, 100,
      255, 255, 255, 255, 255, 255, 255, 255, 255,
      94, 94, 94, 94, 94, 94, 94, 94, 94,
      94, 94, 94, 94, 94, 94, 94, 94, 94,
      94, 94, 94, 94, 94, 94, 94, 94, 94,
      94, 94, 94, 94, 94, 94, 94, 94, 94,
      94, 94, 94, 94, 94, 94, 94, 94, 94,
      94, 94, 94, 94, 94, 94, 94, 94, 94,
      94, 94, 94, 94, 94, 94, 94, 94, 94,
      94, 94, 94, 94, 94, 94, 94, 94, 94,
      94, 94, 94, 94, 94, 94, 94, 94, 94,
      94, 94, 94, 94, 94, 94, 94, 94, 94]"
  by (simp add: striped_canvas_def numeral_eq_Suc)

lemma striped_info:
  "width (info striped_canvas) = 3" "height (info striped_canvas) = 15"
  "channels (info striped_canvas) = 3"
  by (simp_all add: striped_canvas_def)

lemmas pixel_eval =
  getPixelAt_def js_slice_def js_trunc_def striped_buffer striped_info Let_def js_byte_at_def

lemma getBgBrightness_striped: "getBgBrightness striped_canvas = Fin 94"
  by (simp add: getBgBrightness_def getPixelBrightnessAt_def pixel_eval calcBrightness_grey)

lemmas sample_eval =
  ray_sample_def pixel_eval default_settings_fields calcNormalizedBrightness_def
  calcNormalizedColor_def calcBrightness_def clamp8_def clamp_def js_max_def js_min_def
  js_sub_def js_pow_one

lemma ray_sample_striped:
  "ray_sample default_settings striped_canvas (Fin 1) SIDE_TOP (Fin 94) 0 = Fin 0"
  "ray_sample default_settings striped_canvas (Fin 1) SIDE_TOP (Fin 94) (Suc 0) = Fin 0"
  "ray_sample default_settings striped_canvas (Fin 1) SIDE_TOP (Fin 94) (Suc (Suc 0)) = Fin 255"
  "ray_sample default_settings striped_canvas (Fin 1) SIDE_TOP (Fin 94) (Suc (Suc (Suc 0))) = NaN"
  "ray_sample default_settings striped_canvas (Fin 1) SIDE_TOP (Fin 94) (Suc (Suc (Suc (Suc 0))))
     = Fin 255"
  by (simp_all add: sample_eval del: js_pow.simps)

lemmas hits_eval =
  ray_sample_striped default_settings_fields Let_def js_gt_def js_le_def js_eq_def

lemma castEdgeRay_hits_striped:
  "castEdgeRay_hits default_settings striped_canvas (Fin 1) SIDE_TOP 6 (Fin 94) 0 []
     = Some [(2, Fin 255), (4, Fin 255)]"
proof -
  let ?hits = "castEdgeRay_hits default_settings striped_canvas (Fin 1) SIDE_TOP 6 (Fin 94)"
  have "?hits 0 [] = ?hits (Suc 0) []"
    by (subst castEdgeRay_hits_step) (simp add: hits_eval)
  also have "\<dots> = ?hits (Suc (Suc 0)) []"
    by (subst castEdgeRay_hits_step) (simp add: hits_eval)
  also have "\<dots> = ?hits (Suc (Suc (Suc 0))) [(Suc (Suc 0), Fin 255)]"
    by (subst castEdgeRay_hits_step) (simp add: hits_eval)
  also have "\<dots> = ?hits (Suc (Suc (Suc (Suc 0)))) [(Suc (Suc 0), Fin 255)]"
    by (subst castEdgeRay_hits_step) (simp add: hits_eval)
  also have "\<dots> = Some [(Suc (Suc 0), Fin 255), (Suc (Suc (Suc (Suc 0))), Fin 255)]"
    by (subst castEdgeRay_hits_step) (simp add: hits_eval)
  finally show ?thesis by (simp add: eval_nat_numeral)
qed

text \<open>
  Claim C10 says that the two hits a ray interpolates are at consecutive depths. On the
  striped canvas the background brightness is 94, so the black point \<open>6 + 94\<close> and
  the white point are both 100. The ray from the top at position 1 reads white at depth
  2, the grey level 100 at depth 3, which normalises to \<open>0/0 = NaN\<close>, and white at
  depth 4. \<open>NaN\<close> is neither above the threshold nor at most the threshold: the hit of
  depth 2 is kept, and the ray interpolates the hits of depths 2 and 4.
\<close>

theorem castEdgeRay_hits_not_consecutive:
  "getBgBrightness striped_canvas = Fin 94
   \<and> ray_sample default_settings striped_canvas (Fin 1) SIDE_TOP (Fin 94) 3 = NaN
   \<and> castEdgeRay_hits default_settings striped_canvas (Fin 1) SIDE_TOP 6 (Fin 94) 0 []
       = Some [(2, Fin 255), (4, Fin 255)]
   \<and> castEdgeRay default_settings striped_canvas (Fin 1) SIDE_TOP 6 (Fin 94)
       = Inr (Some (Fin 2))"
  using ray_sample_striped(4)
  by (simp add: getBgBrightness_striped castEdgeRay_def castEdgeRay_hits_striped js_gt_def
        js_sub_def eval_nat_numeral)

end
